theory Spec2Isabelle
  imports Complex_Main "HOL-Library.Char_ord" "HOL-Library.List_Lexorder"
begin

text \<open>
  A shallow embedding of the weather API server: the environment helpers and the
  configuration of \<^verbatim>\<open>main\<close>, the HTTP handler of \<^verbatim>\<open>/weather\<close>, and the
  OpenWeatherMap client. Strings are lists of bytes. Functions of the Go library
  that the code calls are modelled where their behaviour is simple to state
  (\<^verbatim>\<open>Atoi\<close>, the formatting verbs, \<^verbatim>\<open>QueryEscape\<close>, \<^verbatim>\<open>Values.Encode\<close>, the JSON
  encoder of the two payloads, the response writer) and are parameters of the model
  otherwise (\<^verbatim>\<open>ParseFloat\<close>, \<^verbatim>\<open>FormatFloat\<close>, the URL parser and printer, the HTTP
  round trip, the JSON decoder, the formatting of times, the rounding of floats).
\<close>

section \<open>Environment helpers (package utils)\<close>










section \<open>Server configuration (package main)\<close>





section \<open>64-bit floating-point values\<close>

text \<open>
  A \<^verbatim>\<open>float64\<close> is a finite value, a signed infinity or NaN. A finite value
  carries the rational number it denotes; \<open>Finite 0\<close> is the positive zero and
  \<open>NegZero\<close> the negative one. Every binary64 value is one of these, so a statement
  for all values of this type covers all values the program can hold.
\<close>

datatype float64 = Finite rat | NegZero | PosInf | NegInf | NaN

fun f64_val :: "float64 \<Rightarrow> rat" where
  "f64_val (Finite q) = q"
| "f64_val _ = 0"

fun is_nan :: "float64 \<Rightarrow> bool" where
  "is_nan NaN = True"
| "is_nan _ = False"

fun is_inf :: "float64 \<Rightarrow> bool" where
  "is_inf PosInf = True"
| "is_inf NegInf = True"
| "is_inf _ = False"

fun is_zero :: "float64 \<Rightarrow> bool" where
  "is_zero (Finite q) = (q = 0)"
| "is_zero NegZero = True"
| "is_zero _ = False"


fun signbit :: "float64 \<Rightarrow> bool" where
  "signbit (Finite q) = (q < 0)"
| "signbit NegZero = True"
| "signbit NegInf = True"
| "signbit _ = False"

text \<open>
  The comparison operators of the language follow IEEE 754: the two zeros are equal,
  and every comparison with NaN is false. \<open>f64_rank\<close> places the values that are not
  NaN on the extended number line.
\<close>

fun f64_rank :: "float64 \<Rightarrow> (int \<times> rat) option" where
  "f64_rank NaN = None"
| "f64_rank NegInf = Some (- 1, 0)"
| "f64_rank PosInf = Some (1, 0)"
| "f64_rank x = Some (0, f64_val x)"

definition f64_lt :: "float64 \<Rightarrow> float64 \<Rightarrow> bool" where
  "f64_lt a b =
     (case (f64_rank a, f64_rank b) of
        (Some (i, p), Some (j, q)) \<Rightarrow> i < j \<or> (i = j \<and> p < q)
      | _ \<Rightarrow> False)"

definition f64_le :: "float64 \<Rightarrow> float64 \<Rightarrow> bool" where
  "f64_le a b =
     (case (f64_rank a, f64_rank b) of
        (Some (i, p), Some (j, q)) \<Rightarrow> i < j \<or> (i = j \<and> p \<le> q)
      | _ \<Rightarrow> False)"

definition f64_gt :: "float64 \<Rightarrow> float64 \<Rightarrow> bool" where
  "f64_gt a b = f64_lt b a"

definition f64_ge :: "float64 \<Rightarrow> float64 \<Rightarrow> bool" where
  "f64_ge a b = f64_le b a"

text \<open>
  Arithmetic, again after IEEE 754. The exact result of an operation on finite
  operands is rounded to a representable value by \<open>rnd\<close>, the rounding of the
  machine, which is a parameter here: it may overflow to an infinity or underflow to
  a zero. Operations whose result is exact by the standard (a zero, an infinity, NaN)
  do not round.
\<close>

definition f64_zero :: "bool \<Rightarrow> float64" where
  "f64_zero neg = (if neg then NegZero else Finite 0)"

definition f64_infinity :: "bool \<Rightarrow> float64" where
  "f64_infinity neg = (if neg then NegInf else PosInf)"

fun f64_neg :: "float64 \<Rightarrow> float64" where
  "f64_neg (Finite q) = (if q = 0 then NegZero else Finite (- q))"
| "f64_neg NegZero = Finite 0"
| "f64_neg PosInf = NegInf"
| "f64_neg NegInf = PosInf"
| "f64_neg NaN = NaN"

definition f64_add :: "(rat \<Rightarrow> float64) \<Rightarrow> float64 \<Rightarrow> float64 \<Rightarrow> float64" where
  "f64_add rnd a b =
     (if is_nan a \<or> is_nan b then NaN
      else if is_inf a \<and> is_inf b then (if a = b then a else NaN)
      else if is_inf a then a
      else if is_inf b then b
      else if is_zero a \<and> is_zero b then f64_zero (signbit a \<and> signbit b)
      else if is_zero a then b
      else if is_zero b then a
      else if f64_val a + f64_val b = 0 then Finite 0
      else rnd (f64_val a + f64_val b))"

definition f64_sub :: "(rat \<Rightarrow> float64) \<Rightarrow> float64 \<Rightarrow> float64 \<Rightarrow> float64" where
  "f64_sub rnd a b = f64_add rnd a (f64_neg b)"

definition f64_mul :: "(rat \<Rightarrow> float64) \<Rightarrow> float64 \<Rightarrow> float64 \<Rightarrow> float64" where
  "f64_mul rnd a b =
     (if is_nan a \<or> is_nan b then NaN
      else if (is_inf a \<and> is_zero b) \<or> (is_zero a \<and> is_inf b) then NaN
      else if is_inf a \<or> is_inf b then f64_infinity (signbit a \<noteq> signbit b)
      else if is_zero a \<or> is_zero b then f64_zero (signbit a \<noteq> signbit b)
      else rnd (f64_val a * f64_val b))"

definition f64_div :: "(rat \<Rightarrow> float64) \<Rightarrow> float64 \<Rightarrow> float64 \<Rightarrow> float64" where
  "f64_div rnd a b =
     (if is_nan a \<or> is_nan b then NaN
      else if (is_inf a \<and> is_inf b) \<or> (is_zero a \<and> is_zero b) then NaN
      else if is_inf a \<or> is_zero b then f64_infinity (signbit a \<noteq> signbit b)
      else if is_inf b \<or> is_zero a then f64_zero (signbit a \<noteq> signbit b)
      else rnd (f64_val a / f64_val b))"

section \<open>Formatting verbs of package fmt\<close>

text \<open>The decimal digits of a non-negative integer, and \<^verbatim>\<open>%d\<close>.\<close>

function fmt_digits :: "int \<Rightarrow> string" where
  "fmt_digits n =
     (if n < 10 then [char_of (48 + n)]
      else fmt_digits (n div 10) @ [char_of (48 + n mod 10)])"
  by pat_completeness auto
termination
  by (relation "measure nat") auto

definition Sprintf_d :: "int \<Rightarrow> string" where
  "Sprintf_d n = (if n < 0 then CHR ''-'' # fmt_digits (- n) else fmt_digits n)"

text \<open>
  \<^verbatim>\<open>%.4f\<close>: the value rounded to four decimals, an exact tie going to the even
  digit, printed with at least one digit before the point; the infinities and NaN
  print as words.
\<close>

definition round_half_even :: "rat \<Rightarrow> int" where
  "round_half_even q =
     (let f = \<lfloor>q\<rfloor>; d = q - of_int f in
      if d < 1 / 2 then f
      else if 1 / 2 < d then f + 1
      else if even f then f else f + 1)"

definition pad4 :: "string \<Rightarrow> string" where
  "pad4 s = replicate (4 - length s) (CHR ''0'') @ s"

definition Sprintf_4f :: "float64 \<Rightarrow> string" where
  "Sprintf_4f x =
     (case x of
        NaN \<Rightarrow> ''NaN''
      | PosInf \<Rightarrow> ''+Inf''
      | NegInf \<Rightarrow> ''-Inf''
      | _ \<Rightarrow>
          (let n = round_half_even (\<bar>f64_val x\<bar> * 10000) in
           (if signbit x then ''-'' else []) @ fmt_digits (n div 10000) @ ''.''
             @ pad4 (fmt_digits (n mod 10000))))"

section \<open>Weather data and the service interface (package service)\<close>

record WeatherData =
  ObservationTime :: string
  Country :: string
  City :: string
  Condition :: string
  TemperatureCategory :: string

text \<open>
  A Go function either returns or panics. \<^verbatim>\<open>WeatherService.GetWeather\<close> returns
  the pair of a pointer (possibly nil) and an error (possibly nil); the type of the
  error is left open, as the interface leaves it. An implementation may keep state
  of its own (a connection pool, a call counter), which is threaded through the call,
  so that a call that was made is visible in the state.
\<close>

datatype 'a outcome = Panic string | Return 'a

type_synonym ('e, 's) WeatherService =
  "float64 \<Rightarrow> float64 \<Rightarrow> 's \<Rightarrow> (WeatherData option \<times> 'e option) outcome \<times> 's"

section \<open>The HTTP handler (package handler)\<close>

subsection \<open>Requests and response writers of net/http\<close>

text \<open>
  Of a request the handler reads the method and the parsed query
  (\<^verbatim>\<open>r.URL.Query()\<close>, a table from a key to the list of its values).
  \<^verbatim>\<open>Values.Get\<close> is the first value of the key, or the empty string.
\<close>

record Request =
  Method :: string
  Query :: "string \<rightharpoonup> string list"

definition Values_Get :: "(string \<rightharpoonup> string list) \<Rightarrow> string \<Rightarrow> string" where
  "Values_Get vs key =
     (case vs key of None \<Rightarrow> [] | Some [] \<Rightarrow> [] | Some (v # _) \<Rightarrow> v)"

text \<open>
  A response writer holds the header table under construction and what has gone to
  the client: the status line and the headers, fixed by the first call of
  \<^verbatim>\<open>WriteHeader\<close> (a later call is ignored, and later changes of the header table
  are not sent), and the body bytes written so far. A write before any
  \<^verbatim>\<open>WriteHeader\<close> sends status 200 first.
\<close>

record ResponseWriter =
  Header :: "string \<rightharpoonup> string"
  wroteHeader :: bool
  Status :: int
  SentHeader :: "string \<rightharpoonup> string"
  Body :: string

definition NewResponseWriter :: ResponseWriter where
  "NewResponseWriter =
     \<lparr> Header = Map.empty, wroteHeader = False, Status = 0,
       SentHeader = Map.empty, Body = [] \<rparr>"

definition Header_Set :: "string \<Rightarrow> string \<Rightarrow> ResponseWriter \<Rightarrow> ResponseWriter" where
  "Header_Set key v w = w\<lparr> Header := (Header w)(key \<mapsto> v) \<rparr>"

definition Header_Del :: "string \<Rightarrow> ResponseWriter \<Rightarrow> ResponseWriter" where
  "Header_Del key w = w\<lparr> Header := (Header w)(key := None) \<rparr>"

definition WriteHeader :: "int \<Rightarrow> ResponseWriter \<Rightarrow> ResponseWriter" where
  "WriteHeader statusCode w =
     (if wroteHeader w then w
      else w\<lparr> wroteHeader := True, Status := statusCode, SentHeader := Header w \<rparr>)"

definition Write :: "string \<Rightarrow> ResponseWriter \<Rightarrow> ResponseWriter" where
  "Write bytes w =
     (let w' = (if wroteHeader w then w else WriteHeader 200 w) in
      w'\<lparr> Body := Body w' @ bytes \<rparr>)"

text \<open>
  \<^verbatim>\<open>http.Error\<close>: resets the content headers, calls \<^verbatim>\<open>WriteHeader\<close> and prints the
  message and a newline.
\<close>

definition http_Error :: "ResponseWriter \<Rightarrow> string \<Rightarrow> int \<Rightarrow> ResponseWriter" where
  "http_Error w msg code =
     Write (msg @ [CHR 0x0A])
       (WriteHeader code
         (Header_Set ''X-Content-Type-Options'' ''nosniff''
           (Header_Set ''Content-Type'' ''text/plain; charset=utf-8''
             (Header_Del ''Content-Length'' w))))"

subsection \<open>JSON encoding of the two payloads\<close>

record ErrorResponse =
  Error :: string

datatype payload = ErrorPayload ErrorResponse | DataPayload "WeatherData option"

text \<open>
  String escaping of \<^verbatim>\<open>encoding/json\<close> as an \<^verbatim>\<open>Encoder\<close> does it (HTML escaping
  on). A byte below 0x80 is copied when it is printable and none of
  the double quote, the ampersand, the angle brackets and the backslash; the others are escaped. From 0x80 on, a well-formed UTF-8 sequence
  is copied, except U+2028 and U+2029, and a byte that starts none is replaced by
  the escape of U+FFFD.
\<close>

definition hex_lower :: "nat \<Rightarrow> char" where
  "hex_lower n = ''0123456789abcdef'' ! (n mod 16)"

definition json_escape_ascii :: "char \<Rightarrow> string" where
  "json_escape_ascii c =
     (let b = (of_char c :: nat) in
      if 32 \<le> b \<and> c \<notin> set [CHR 0x22, CHR ''&'', CHR ''<'', CHR ''>'', CHR 0x5C] then [c]
      else if c = CHR 0x5C \<or> c = CHR 0x22 then [CHR 0x5C, c]
      else if b = 8 then [CHR 0x5C, CHR ''b'']
      else if b = 12 then [CHR 0x5C, CHR ''f'']
      else if b = 10 then [CHR 0x5C, CHR ''n'']
      else if b = 13 then [CHR 0x5C, CHR ''r'']
      else if b = 9 then [CHR 0x5C, CHR ''t'']
      else [CHR 0x5C, CHR ''u'', CHR ''0'', CHR ''0'', hex_lower (b div 16), hex_lower (b mod 16)])"

definition in_range :: "nat \<Rightarrow> nat \<Rightarrow> char \<Rightarrow> bool" where
  "in_range lo hi c = (lo \<le> (of_char c :: nat) \<and> (of_char c :: nat) \<le> hi)"

text \<open>
  The length of the well-formed UTF-8 sequence at the head of a string that starts
  with a byte from 0x80 on, or 0 when there is none
  (\<^verbatim>\<open>utf8.DecodeRuneInString\<close> returning \<^verbatim>\<open>RuneError\<close> with size 1).
\<close>

fun utf8_size :: "string \<Rightarrow> nat" where
  "utf8_size (b0 # b1 # b2 # b3 # _) =
     (if in_range 0xC2 0xDF b0 \<and> in_range 0x80 0xBF b1 then 2
      else if in_range 0xE0 0xEF b0 \<and> in_range 0x80 0xBF b2
              \<and> in_range (if b0 = CHR 0xE0 then 0xA0 else 0x80)
                   (if b0 = CHR 0xED then 0x9F else 0xBF) b1 then 3
      else if in_range 0xF0 0xF4 b0 \<and> in_range 0x80 0xBF b2 \<and> in_range 0x80 0xBF b3
              \<and> in_range (if b0 = CHR 0xF0 then 0x90 else 0x80)
                   (if b0 = CHR 0xF4 then 0x8F else 0xBF) b1 then 4
      else 0)"
| "utf8_size [b0, b1, b2] =
     (if in_range 0xC2 0xDF b0 \<and> in_range 0x80 0xBF b1 then 2
      else if in_range 0xE0 0xEF b0 \<and> in_range 0x80 0xBF b2
              \<and> in_range (if b0 = CHR 0xE0 then 0xA0 else 0x80)
                   (if b0 = CHR 0xED then 0x9F else 0xBF) b1 then 3
      else 0)"
| "utf8_size [b0, b1] =
     (if in_range 0xC2 0xDF b0 \<and> in_range 0x80 0xBF b1 then 2 else 0)"
| "utf8_size _ = 0"

text \<open>
  \<open>json_escape k s\<close>: the escaped form of \<open>s\<close>, whose first \<open>k\<close> bytes are the rest
  of a sequence that has been copied already.
\<close>

fun json_escape :: "nat \<Rightarrow> string \<Rightarrow> string" where
  "json_escape k [] = []"
| "json_escape (Suc k) (c # cs) = json_escape k cs"
| "json_escape 0 (c # cs) =
     (if (of_char c :: nat) < 128 then json_escape_ascii c @ json_escape 0 cs
      else (case utf8_size (c # cs) of
              0 \<Rightarrow> [CHR 0x5C] @ ''ufffd'' @ json_escape 0 cs
            | Suc n \<Rightarrow>
                (if take 3 (c # cs) = [CHR 0xE2, CHR 0x80, CHR 0xA8] then [CHR 0x5C] @ ''u2028''
                 else if take 3 (c # cs) = [CHR 0xE2, CHR 0x80, CHR 0xA9] then [CHR 0x5C] @ ''u2029''
                 else take (Suc n) (c # cs))
                @ json_escape n cs))"

definition json_string :: "string \<Rightarrow> string" where
  "json_string s = [CHR 0x22] @ json_escape 0 s @ [CHR 0x22]"

text \<open>
  \<^verbatim>\<open>Encoder.Encode\<close> on the values the handler passes: an object with the fields
  in the order of the struct, under the key of the tag (\<^verbatim>\<open>error\<close>) or the name of
  the field, \<^verbatim>\<open>null\<close> for a nil pointer, and a final newline.
\<close>

definition json_field :: "string \<Rightarrow> string \<Rightarrow> string" where
  "json_field key v = json_string key @ '':'' @ json_string v"

definition json_Marshal :: "payload \<Rightarrow> string" where
  "json_Marshal p =
     (case p of
        ErrorPayload e \<Rightarrow> ''{'' @ json_field ''error'' (Error e) @ ''}''
      | DataPayload None \<Rightarrow> ''null''
      | DataPayload (Some d) \<Rightarrow>
          ''{'' @ json_field ''ObservationTime'' (ObservationTime d)
            @ '','' @ json_field ''Country'' (Country d)
            @ '','' @ json_field ''City'' (City d)
            @ '','' @ json_field ''Condition'' (Condition d)
            @ '','' @ json_field ''TemperatureCategory'' (TemperatureCategory d) @ ''}'')"

text \<open>
  An encoder is a parameter of the handler: \<open>Some bytes\<close> when \<^verbatim>\<open>Encode\<close> wrote
  \<open>bytes\<close> and returned nil, \<open>None\<close> when it returned an error, having written
  nothing (the encoder marshals the whole value before it writes). \<open>json_Encode\<close>
  is the encoder of the library, whose marshalling does not fail on these payloads.
\<close>

type_synonym encoder = "payload \<Rightarrow> string option"

definition json_Encode :: encoder where
  "json_Encode p = Some (json_Marshal p @ [CHR 0x0A])"

subsection \<open>The handler\<close>

text \<open>
  \<^verbatim>\<open>strconv.ParseFloat(s, 64)\<close> is a parameter \<open>ParseFloat\<close> of the handler:
  \<open>None\<close> when it returns an error, \<open>Some x\<close> when it returns \<open>x\<close> and no error.
  \<^verbatim>\<open>parseCoordinates\<close> returns the coordinates or the text of the error.
\<close>

type_synonym float_parser = "string \<Rightarrow> float64 option"

definition parseCoordinates :: "float_parser \<Rightarrow> Request \<Rightarrow> string + float64 \<times> float64" where
  "parseCoordinates ParseFloat r =
     (let latStr = Values_Get (Query r) ''lat'';
          lonStr = Values_Get (Query r) ''lon'' in
      if latStr = [] \<or> lonStr = [] then Inl ''lat and lon query parameters are required''
      else (case ParseFloat latStr of
              None \<Rightarrow> Inl (''invalid latitude value: '' @ latStr)
            | Some lat \<Rightarrow>
                (case ParseFloat lonStr of
                   None \<Rightarrow> Inl (''invalid longitude value: '' @ lonStr)
                 | Some lon \<Rightarrow>
                     if f64_lt lat (Finite (- 90)) \<or> f64_gt lat (Finite 90)
                     then Inl (''latitude must be between -90 and 90, got: '' @ Sprintf_4f lat)
                     else if f64_lt lon (Finite (- 180)) \<or> f64_gt lon (Finite 180)
                     then Inl (''longitude must be between -180 and 180, got: ''
                                 @ Sprintf_4f lon)
                     else Inr (lat, lon))))"

definition sendJSONResponse ::
    "encoder \<Rightarrow> ResponseWriter \<Rightarrow> int \<Rightarrow> payload \<Rightarrow> ResponseWriter" where
  "sendJSONResponse Encode w statusCode data =
     (let w1 = Header_Set ''Content-Type'' ''application/json'' w;
          w2 = WriteHeader statusCode w1 in
      case Encode data of
        Some bytes \<Rightarrow> Write bytes w2
      | None \<Rightarrow> http_Error w2 ''Internal server error'' 500)"

definition sendErrorResponse ::
    "encoder \<Rightarrow> ResponseWriter \<Rightarrow> int \<Rightarrow> string \<Rightarrow> ResponseWriter" where
  "sendErrorResponse Encode w statusCode message =
     sendJSONResponse Encode w statusCode (ErrorPayload \<lparr> Error = message \<rparr>)"

text \<open>
  \<^verbatim>\<open>WeatherHandler.GetWeather\<close>. The service of the handler struct is the
  argument \<open>weatherService\<close>. The result is the response writer after the handler,
  or the panic of the service, and the state of the service. The log lines are not
  part of the model, and the timeout of the struct shows only through the service,
  which returns an error when the deadline of its context passes.
\<close>

definition WeatherHandler_GetWeather ::
    "float_parser \<Rightarrow> encoder \<Rightarrow> ('e, 's) WeatherService \<Rightarrow> ResponseWriter \<Rightarrow> Request \<Rightarrow> 's
       \<Rightarrow> ResponseWriter outcome \<times> 's" where
  "WeatherHandler_GetWeather ParseFloat Encode weatherService w r st =
     (if Method r \<noteq> ''GET''
      then (Return (sendErrorResponse Encode w 405 ''Method not allowed''), st)
      else (case parseCoordinates ParseFloat r of
              Inl err \<Rightarrow> (Return (sendErrorResponse Encode w 400 err), st)
            | Inr (lat, lon) \<Rightarrow>
                (case weatherService lat lon st of
                   (Panic msg, st') \<Rightarrow> (Panic msg, st')
                 | (Return (weatherData, err), st') \<Rightarrow>
                     (case err of
                        Some e \<Rightarrow>
                          (Return (sendErrorResponse Encode w 503
                                     ''Unable to fetch weather data''), st')
                      | None \<Rightarrow>
                          (Return (sendJSONResponse Encode w 200 (DataPayload weatherData)),
                           st')))))"

section \<open>The OpenWeatherMap client (package service)\<close>

subsection \<open>URLs and query strings of net/url\<close>

text \<open>
  \<^verbatim>\<open>url.QueryEscape\<close>: letters, digits and \<^verbatim>\<open>- _ . ~\<close> stay, a space becomes
  \<^verbatim>\<open>+\<close>, every other byte becomes \<^verbatim>\<open>%XX\<close> in upper-case hexadecimal.
\<close>

definition hex_upper :: "nat \<Rightarrow> char" where
  "hex_upper n = ''0123456789ABCDEF'' ! (n mod 16)"

definition shouldEscape :: "char \<Rightarrow> bool" where
  "shouldEscape c =
     (\<not> (in_range 0x61 0x7A c \<or> in_range 0x41 0x5A c \<or> in_range 0x30 0x39 c
         \<or> c \<in> set ''-_.~''))"

definition escape_byte :: "char \<Rightarrow> string" where
  "escape_byte c =
     (if shouldEscape c
      then (if c = CHR '' '' then ''+''
            else [CHR ''%'', hex_upper ((of_char c :: nat) div 16),
                  hex_upper ((of_char c :: nat) mod 16)])
      else [c])"

definition QueryEscape :: "string \<Rightarrow> string" where
  "QueryEscape s = concat (map escape_byte s)"

text \<open>
  \<^verbatim>\<open>url.Values\<close> is a table from a key to the list of its values; the model keeps
  the entries in a list with one entry for each key. \<^verbatim>\<open>Add\<close> appends a value to
  the list of the key. \<^verbatim>\<open>Encode\<close> walks the keys in sorted order (the byte order
  of strings) and joins the escaped \<^verbatim>\<open>key=value\<close> pairs with \<^verbatim>\<open>&\<close>.
\<close>

type_synonym Values = "(string \<times> string list) list"

fun Values_Add :: "string \<Rightarrow> string \<Rightarrow> Values \<Rightarrow> Values" where
  "Values_Add key v [] = [(key, [v])]"
| "Values_Add key v ((k, vs) # rest) =
     (if k = key then (k, vs @ [v]) # rest else (k, vs) # Values_Add key v rest)"

fun join_amp :: "string list \<Rightarrow> string" where
  "join_amp [] = []"
| "join_amp [x] = x"
| "join_amp (x # y # ys) = x @ ''&'' @ join_amp (y # ys)"

definition Values_Encode :: "Values \<Rightarrow> string" where
  "Values_Encode v =
     join_amp
       (concat
          (map (\<lambda>k. map (\<lambda>x. QueryEscape k @ ''='' @ QueryEscape x)
                       (case map_of v k of None \<Rightarrow> [] | Some vs \<Rightarrow> vs))
               (sort (map fst v))))"

record URL =
  Scheme :: string
  Host :: string
  Path :: string
  RawQuery :: string
  Fragment :: string

subsection \<open>The upstream envelope\<close>

text \<open>
  \<^verbatim>\<open>OpenWeatherMapResponse\<close>, the struct the body is decoded into, with the nested
  structs flattened: \<open>Weather\<close> holds the \<^verbatim>\<open>main\<close> label of every element of
  \<^verbatim>\<open>weather\<close>, \<open>Main_Temp\<close> is \<^verbatim>\<open>main.temp\<close> and \<open>Location_Country\<close> is
  \<^verbatim>\<open>sys.country\<close>.
\<close>

record OpenWeatherMapResponse =
  Weather :: "string list"
  Main_Temp :: float64
  UnixSeconds :: int
  Location_Country :: string
  Name :: string
  HttpCode :: int
  Message :: string

record HTTPRequest =
  ReqMethod :: string
  ReqURL :: string
  ReqHeader :: "string \<rightharpoonup> string"

text \<open>
  Of the response of the upstream the client holds the status code of the HTTP
  response and the body; \<open>ReadAll\<close> is what \<^verbatim>\<open>io.ReadAll(resp.Body)\<close> returns, an
  error or the bytes.
\<close>

record HTTPResponse =
  StatusCode :: int
  ReadAll :: "string + string"

text \<open>
  What the client calls outside this repository: the URL parser and printer, the
  shortest decimal of a float (\<^verbatim>\<open>strconv.FormatFloat(x, 'f', -1, 64)\<close>), the
  construction of a request, the round trip of the HTTP client under the deadline
  of the context, the JSON decoder, the formatting of a Unix time in the local zone
  with the layout of \<^verbatim>\<open>weatherCheckTime\<close>, and the rounding of the floating-point
  unit. A result of type \<open>string + 'a\<close> is the text of an error or a value.
\<close>

record extern =
  url_Parse :: "string \<Rightarrow> string + URL"
  URL_String :: "URL \<Rightarrow> string"
  FormatFloat :: "float64 \<Rightarrow> string"
  NewRequestWithContext :: "string \<Rightarrow> string \<Rightarrow> string + HTTPRequest"
  client_Do :: "HTTPRequest \<Rightarrow> string + HTTPResponse"
  json_Unmarshal :: "string \<Rightarrow> string + OpenWeatherMapResponse"
  time_Format :: "int \<Rightarrow> string"
  round64 :: "rat \<Rightarrow> float64"

subsection \<open>The client\<close>

text \<open>
  Of the struct of the client the model keeps the key and the base URL; its HTTP
  client is the round trip \<open>client_Do\<close> above.
\<close>

record OpenWeatherMapService =
  apiKey :: string
  baseURL :: string

text \<open>
  The errors of \<^verbatim>\<open>GetWeather\<close>, one constructor for each \<^verbatim>\<open>fmt.Errorf\<close> of the
  function, and the text each of them prints.
\<close>

datatype service_error =
    BuildURLError string
  | CreateRequestError string
  | HTTPRequestError string
  | ReadBodyError string
  | ParseJSONError string
  | APIError int string

fun error_text :: "service_error \<Rightarrow> string" where
  "error_text (BuildURLError e) = ''failed to build API URL: '' @ e"
| "error_text (CreateRequestError e) = ''failed to create HTTP request: '' @ e"
| "error_text (HTTPRequestError e) = ''failed to make HTTP request: '' @ e"
| "error_text (ReadBodyError e) = ''failed to read response body: '' @ e"
| "error_text (ParseJSONError e) = ''failed to parse JSON response: '' @ e"
| "error_text (APIError code msg) =
     ''OpenWeatherMap API error (code '' @ Sprintf_d code @ ''): '' @ msg"

definition buildAPIURL ::
    "extern \<Rightarrow> OpenWeatherMapService \<Rightarrow> float64 \<Rightarrow> float64 \<Rightarrow> string + string" where
  "buildAPIURL X srv lat lon =
     (case url_Parse X (baseURL srv @ ''/weather'') of
        Inl err \<Rightarrow> Inl err
      | Inr u \<Rightarrow>
          (let params = Values_Add ''lat'' (FormatFloat X lat) [];
               params = Values_Add ''lon'' (FormatFloat X lon) params;
               params = Values_Add ''appid'' (apiKey srv) params in
           Inr (URL_String X (u\<lparr> RawQuery := Values_Encode params \<rparr>))))"

definition categorizeTemperature :: "float64 \<Rightarrow> string" where
  "categorizeTemperature tempFahrenheit =
     (if f64_lt tempFahrenheit (Finite 50) then ''cold''
      else if f64_ge tempFahrenheit (Finite 50) \<and> f64_lt tempFahrenheit (Finite 68)
      then ''moderate''
      else ''hot'')"

text \<open>
  The conversion \<^verbatim>\<open>(temp-273.15)*9/5 + 32\<close>: four operations from left to right,
  each rounded; the constant 273.15 is converted to the nearest \<^verbatim>\<open>float64\<close>, the
  other constants are exact.
\<close>

definition tempFahrenheit :: "(rat \<Rightarrow> float64) \<Rightarrow> float64 \<Rightarrow> float64" where
  "tempFahrenheit rnd temp =
     f64_add rnd
       (f64_div rnd (f64_mul rnd (f64_sub rnd temp (rnd (27315 / 100))) (Finite 9)) (Finite 5))
       (Finite 32)"

definition weatherCheckTime :: "extern \<Rightarrow> OpenWeatherMapResponse \<Rightarrow> string" where
  "weatherCheckTime X response = time_Format X (UnixSeconds response)"

text \<open>
  \<^verbatim>\<open>OpenWeatherMapService.GetWeather\<close>. Indexing the empty slice
  \<^verbatim>\<open>mapResponse.Weather\<close> at 0 is a run-time panic.
\<close>

definition OpenWeatherMapService_GetWeather ::
    "extern \<Rightarrow> OpenWeatherMapService \<Rightarrow> float64 \<Rightarrow> float64
       \<Rightarrow> (service_error + WeatherData) outcome" where
  "OpenWeatherMapService_GetWeather X srv lat lon =
     (case buildAPIURL X srv lat lon of
        Inl err \<Rightarrow> Return (Inl (BuildURLError err))
      | Inr apiURL \<Rightarrow>
     (case NewRequestWithContext X ''GET'' apiURL of
        Inl err \<Rightarrow> Return (Inl (CreateRequestError err))
      | Inr req0 \<Rightarrow>
     (let req = req0\<lparr> ReqHeader := (ReqHeader req0)
                 (''Accept'' \<mapsto> ''application/json'',
                  ''User-Agent'' \<mapsto> ''Weather-API-Go/1.0'') \<rparr> in
      case client_Do X req of
        Inl err \<Rightarrow> Return (Inl (HTTPRequestError err))
      | Inr resp \<Rightarrow>
     (case ReadAll resp of
        Inl err \<Rightarrow> Return (Inl (ReadBodyError err))
      | Inr body \<Rightarrow>
     (case json_Unmarshal X body of
        Inl err \<Rightarrow> Return (Inl (ParseJSONError err))
      | Inr mapResponse \<Rightarrow>
          if HttpCode mapResponse \<noteq> 200
          then Return (Inl (APIError (HttpCode mapResponse) (Message mapResponse)))
          else
            (let tempF = tempFahrenheit (round64 X) (Main_Temp mapResponse) in
             case Weather mapResponse of
               [] \<Rightarrow> Panic ''runtime error: index out of range [0] with length 0''
             | first # _ \<Rightarrow>
                 Return (Inr \<lparr> ObservationTime = weatherCheckTime X mapResponse,
                               Country = Location_Country mapResponse,
                               City = Name mapResponse,
                               Condition = first,
                               TemperatureCategory = categorizeTemperature tempF \<rparr>)))))))"

text \<open>
  The client behind the interface of the handler: an error is a non-nil error beside
  a nil pointer, a value is a pointer beside a nil error. The client keeps no state.
\<close>

definition OpenWeatherMapService_as_WeatherService ::
    "extern \<Rightarrow> OpenWeatherMapService \<Rightarrow> (service_error, 's) WeatherService" where
  "OpenWeatherMapService_as_WeatherService X srv lat lon st =
     (case OpenWeatherMapService_GetWeather X srv lat lon of
        Panic msg \<Rightarrow> (Panic msg, st)
      | Return (Inl err) \<Rightarrow> (Return (None, Some err), st)
      | Return (Inr d) \<Rightarrow> (Return (Some d, None), st))"

text \<open>
  The envelope that \<^verbatim>\<open>GetWeather\<close> decodes, when the request was built and
  sent and the body was read and decoded: the steps of the function up to the
  check of \<^verbatim>\<open>cod\<close>, without the errors.
\<close>

definition decoded_body ::
    "extern \<Rightarrow> OpenWeatherMapService \<Rightarrow> float64 \<Rightarrow> float64
       \<Rightarrow> OpenWeatherMapResponse option" where
  "decoded_body X srv lat lon =
     (case buildAPIURL X srv lat lon of
        Inl err \<Rightarrow> None
      | Inr apiURL \<Rightarrow>
     (case NewRequestWithContext X ''GET'' apiURL of
        Inl err \<Rightarrow> None
      | Inr req0 \<Rightarrow>
     (case client_Do X (req0\<lparr> ReqHeader := (ReqHeader req0)
                 (''Accept'' \<mapsto> ''application/json'',
                  ''User-Agent'' \<mapsto> ''Weather-API-Go/1.0'') \<rparr>) of
        Inl err \<Rightarrow> None
      | Inr resp \<Rightarrow>
     (case ReadAll resp of
        Inl err \<Rightarrow> None
      | Inr body \<Rightarrow>
     (case json_Unmarshal X body of
        Inl err \<Rightarrow> None
      | Inr mapResponse \<Rightarrow> Some mapResponse)))))"

text \<open>
  \<open>with_status c X\<close> is \<open>X\<close> with the status code of every upstream HTTP response
  replaced by \<open>c\<close>.
\<close>

definition with_status :: "int \<Rightarrow> extern \<Rightarrow> extern" where
  "with_status c X =
     X\<lparr> client_Do := (\<lambda>req. case client_Do X req of
                              Inl err \<Rightarrow> Inl err
                            | Inr resp \<Rightarrow> Inr (resp\<lparr> StatusCode := c \<rparr>)) \<rparr>"

section \<open>Concrete inputs for the examples\<close>

text \<open>
  The results of \<^verbatim>\<open>strconv.ParseFloat(s, 64)\<close> at the strings of the examples.
  Every value listed is representable exactly. Of the strings outside the table the
  examples use \<^verbatim>\<open>abc\<close> only, which the library rejects too.
\<close>

definition ParseFloat_table :: float_parser where
  "ParseFloat_table =
     map_of [(''NaN'', NaN), (''0'', Finite 0), (''90'', Finite 90), (''-90'', Finite (- 90)),
             (''91'', Finite 91), (''180'', Finite 180), (''-180'', Finite (- 180)),
             (''181'', Finite 181), (''40.5'', Finite (81 / 2)),
             (''-74.25'', Finite (- 297 / 4))]"

definition get_request :: "string \<Rightarrow> string \<Rightarrow> Request" where
  "get_request latStr lonStr =
     \<lparr> Method = ''GET'', Query = [''lat'' \<mapsto> [latStr], ''lon'' \<mapsto> [lonStr]] \<rparr>"

text \<open>A service that counts its calls and returns the same result every time.\<close>

definition counting_service ::
    "WeatherData option \<times> 'e option \<Rightarrow> ('e, nat) WeatherService" where
  "counting_service result lat lon calls = (Return result, Suc calls)"

text \<open>
  A stand-in for the library and the upstream: the URL functions at the default base
  URL, the decimal forms of the floats of the examples, a request constructor that
  succeeds, an upstream that gives the same \<open>reply\<close> to every request, a decoder that
  gives \<open>decoded\<close> for every body, the time of the epoch in UTC, and exact arithmetic
  in place of rounding.
\<close>

definition stub_URL_String :: "URL \<Rightarrow> string" where
  "stub_URL_String u =
     Scheme u @ ''://'' @ Host u @ Path u
       @ (if RawQuery u = [] then [] else ''?'' @ RawQuery u)
       @ (if Fragment u = [] then [] else ''#'' @ Fragment u)"

definition stub_extern ::
    "string + HTTPResponse \<Rightarrow> string + OpenWeatherMapResponse \<Rightarrow> extern" where
  "stub_extern reply decoded =
     \<lparr> url_Parse = (\<lambda>s. if s = ''https://api.openweathermap.org/data/2.5/weather''
                         then Inr \<lparr> Scheme = ''https'', Host = ''api.openweathermap.org'',
                                    Path = ''/data/2.5/weather'', RawQuery = [],
                                    Fragment = [] \<rparr>
                         else Inl ''outside the table''),
       URL_String = stub_URL_String,
       FormatFloat = (\<lambda>x. if x = Finite (81 / 2) then ''40.5''
                           else if x = Finite (- 297 / 4) then ''-74.25''
                           else if x = NaN then ''NaN'' else ''0''),
       NewRequestWithContext =
         (\<lambda>m u. Inr \<lparr> ReqMethod = m, ReqURL = u, ReqHeader = Map.empty \<rparr>),
       client_Do = (\<lambda>req. reply),
       json_Unmarshal = (\<lambda>body. decoded),
       time_Format = (\<lambda>t. ''1970-01-01 00:00:00 UTC''),
       round64 = (\<lambda>q. Finite q) \<rparr>"

definition default_service :: OpenWeatherMapService where
  "default_service =
     \<lparr> apiKey = ''0123456789abcdef'',
       baseURL = ''https://api.openweathermap.org/data/2.5'' \<rparr>"

text \<open>
  Three decoded bodies: \<^verbatim>\<open>{"cod":200,"weather":[]}\<close>,
  \<^verbatim>\<open>{"cod":401,"message":"Invalid API key"}\<close>, and a complete report of clear
  weather at 300 K.
\<close>

definition empty_weather_body :: string where
  "empty_weather_body = ''{\"cod\":200,\"weather\":[]}''"

definition empty_weather :: OpenWeatherMapResponse where
  "empty_weather =
     \<lparr> Weather = [], Main_Temp = Finite 0, UnixSeconds = 0, Location_Country = [],
       Name = [], HttpCode = 200, Message = [] \<rparr>"

definition invalid_key_body :: string where
  "invalid_key_body = ''{\"cod\":401,\"message\":\"Invalid API key\"}''"

definition invalid_key :: OpenWeatherMapResponse where
  "invalid_key =
     \<lparr> Weather = [], Main_Temp = Finite 0, UnixSeconds = 0, Location_Country = [],
       Name = [], HttpCode = 401, Message = ''Invalid API key'' \<rparr>"

definition clear_300K :: OpenWeatherMapResponse where
  "clear_300K =
     \<lparr> Weather = [''Clear''], Main_Temp = Finite 300, UnixSeconds = 0,
       Location_Country = ''US'', Name = ''New York'', HttpCode = 200, Message = [] \<rparr>"


text \<open>The stand-in without an upstream: every request fails in transport.\<close>

definition offline_extern :: extern where
  "offline_extern = stub_extern (Inl ''connection refused'') (Inl ''unexpected end of JSON input'')"

section \<open>Configuration loading\<close>







section \<open>Floating-point facts\<close>











lemma f64_nan_compare: "\<not> f64_lt NaN x" "\<not> f64_lt x NaN" "\<not> f64_le NaN x" "\<not> f64_le x NaN"
  by (cases x; simp add: f64_lt_def f64_le_def)+

section \<open>The client\<close>

subsection \<open>The steps of GetWeather\<close>

lemma GetWeather_after_decoding:
  assumes "decoded_body X srv lat lon = Some r"
  shows "OpenWeatherMapService_GetWeather X srv lat lon =
           (if HttpCode r \<noteq> 200 then Return (Inl (APIError (HttpCode r) (Message r)))
            else case Weather r of
                   [] \<Rightarrow> Panic ''runtime error: index out of range [0] with length 0''
                 | first # _ \<Rightarrow>
                     Return (Inr \<lparr> ObservationTime = weatherCheckTime X r,
                                   Country = Location_Country r,
                                   City = Name r,
                                   Condition = first,
                                   TemperatureCategory =
                                     categorizeTemperature
                                       (tempFahrenheit (round64 X) (Main_Temp r)) \<rparr>))"
  using assms
  by (auto simp: OpenWeatherMapService_GetWeather_def decoded_body_def Let_def
      split: sum.splits)

lemma GetWeather_without_body:
  assumes "decoded_body X srv lat lon = None"
  shows "\<exists>e. OpenWeatherMapService_GetWeather X srv lat lon = Return (Inl e)
             \<and> (\<forall>code msg. e \<noteq> APIError code msg)"
  using assms
  by (auto simp: OpenWeatherMapService_GetWeather_def decoded_body_def Let_def
      split: sum.splits)

lemma decoded_body_with_status:
  "decoded_body (with_status c X) srv lat lon = decoded_body X srv lat lon"
  by (simp add: decoded_body_def with_status_def buildAPIURL_def split: sum.splits)

lemma GetWeather_with_status:
  "OpenWeatherMapService_GetWeather (with_status c X) srv lat lon
     = OpenWeatherMapService_GetWeather X srv lat lon"
  by (simp add: OpenWeatherMapService_GetWeather_def with_status_def buildAPIURL_def
       weatherCheckTime_def Let_def split: sum.splits list.splits)

lemma stub_buildAPIURL:
  "buildAPIURL (stub_extern reply decoded) default_service (Finite (81 / 2)) (Finite (- 297 / 4))
     = Inr ''https://api.openweathermap.org/data/2.5/weather?appid=0123456789abcdef&lat=40.5&lon=-74.25''"
  by (simp add: buildAPIURL_def stub_extern_def default_service_def stub_URL_String_def
      Values_Encode_def QueryEscape_def escape_byte_def shouldEscape_def in_range_def)

lemma stub_decoded_body:
  "decoded_body (stub_extern (Inr \<lparr> StatusCode = c, ReadAll = Inr body \<rparr>) (Inr r))
     default_service (Finite (81 / 2)) (Finite (- 297 / 4)) = Some r"
  by (simp only: decoded_body_def stub_buildAPIURL sum.case) (simp add: stub_extern_def)

subsection \<open>An empty weather array\<close>

text \<open>
  C1. The specification asks for an error with the message \<^verbatim>\<open>weather array empty\<close> when
  the body decodes with \<^verbatim>\<open>cod\<close> 200 and an empty \<^verbatim>\<open>weather\<close> array. The function
  has no such check: it indexes the array at 0, and the call ends in a run-time
  panic, for every base URL, key, coordinate pair and upstream.
\<close>

theorem GetWeather_empty_weather_panics:
  assumes "decoded_body X srv lat lon = Some r" and "HttpCode r = 200" and "Weather r = []"
  shows "OpenWeatherMapService_GetWeather X srv lat lon
           = Panic ''runtime error: index out of range [0] with length 0''"
  using GetWeather_after_decoding [OF assms(1)] assms(2,3) by simp

theorem GetWeather_empty_weather_panics_witness:
  "decoded_body (stub_extern (Inr \<lparr> StatusCode = 200, ReadAll = Inr empty_weather_body \<rparr>)
                   (Inr empty_weather))
     default_service (Finite (81 / 2)) (Finite (- 297 / 4)) = Some empty_weather
   \<and> HttpCode empty_weather = 200 \<and> Weather empty_weather = []
   \<and> OpenWeatherMapService_GetWeather
       (stub_extern (Inr \<lparr> StatusCode = 200, ReadAll = Inr empty_weather_body \<rparr>)
          (Inr empty_weather))
       default_service (Finite (81 / 2)) (Finite (- 297 / 4))
     = Panic ''runtime error: index out of range [0] with length 0''"
proof -
  have d: "decoded_body (stub_extern (Inr \<lparr> StatusCode = 200, ReadAll = Inr empty_weather_body \<rparr>)
                   (Inr empty_weather))
     default_service (Finite (81 / 2)) (Finite (- 297 / 4)) = Some empty_weather"
    by (rule stub_decoded_body)
  have c: "HttpCode empty_weather = 200" and w: "Weather empty_weather = []"
    by (simp_all add: empty_weather_def)
  show ?thesis
    using d c w GetWeather_empty_weather_panics [OF d c w] by simp
qed

subsection \<open>The status in the body\<close>

text \<open>
  C5. \<^verbatim>\<open>GetWeather\<close> returns the error of the upstream status, carrying \<^verbatim>\<open>cod\<close>
  and \<^verbatim>\<open>message\<close>, exactly when a body was decoded and its \<^verbatim>\<open>cod\<close> is not 200;
  with \<^verbatim>\<open>cod\<close> 200 it returns no error at all. The status code of the HTTP
  response plays no part: replacing it by any other code changes neither the decoded
  body nor the result.
\<close>

theorem GetWeather_cod_decides:
  "((\<exists>code msg. OpenWeatherMapService_GetWeather X srv lat lon = Return (Inl (APIError code msg)))
      \<longleftrightarrow> (\<exists>r. decoded_body X srv lat lon = Some r \<and> HttpCode r \<noteq> 200))
   \<and> (\<forall>r. decoded_body X srv lat lon = Some r \<and> HttpCode r \<noteq> 200 \<longrightarrow>
          OpenWeatherMapService_GetWeather X srv lat lon
            = Return (Inl (APIError (HttpCode r) (Message r)))
          \<and> error_text (APIError (HttpCode r) (Message r))
              = ''OpenWeatherMap API error (code '' @ Sprintf_d (HttpCode r) @ ''): '' @ Message r)
   \<and> (\<forall>r. decoded_body X srv lat lon = Some r \<and> HttpCode r = 200 \<longrightarrow>
          (\<forall>e. OpenWeatherMapService_GetWeather X srv lat lon \<noteq> Return (Inl e)))
   \<and> (\<forall>c. decoded_body (with_status c X) srv lat lon = decoded_body X srv lat lon
          \<and> OpenWeatherMapService_GetWeather (with_status c X) srv lat lon
              = OpenWeatherMapService_GetWeather X srv lat lon)"
proof (intro conjI allI impI)
  show "(\<exists>code msg. OpenWeatherMapService_GetWeather X srv lat lon = Return (Inl (APIError code msg)))
      \<longleftrightarrow> (\<exists>r. decoded_body X srv lat lon = Some r \<and> HttpCode r \<noteq> 200)"
  proof (cases "decoded_body X srv lat lon")
    case None
    then show ?thesis using GetWeather_without_body [OF None] by auto
  next
    case (Some r)
    then show ?thesis using GetWeather_after_decoding [OF Some]
      by (auto split: list.splits)
  qed
next
  fix r assume "decoded_body X srv lat lon = Some r \<and> HttpCode r \<noteq> 200"
  then show "OpenWeatherMapService_GetWeather X srv lat lon
            = Return (Inl (APIError (HttpCode r) (Message r)))"
    using GetWeather_after_decoding [of X srv lat lon r] by simp
next
  fix r
  show "error_text (APIError (HttpCode r) (Message r))
              = ''OpenWeatherMap API error (code '' @ Sprintf_d (HttpCode r) @ ''): '' @ Message r"
    by simp
next
  fix r e assume "decoded_body X srv lat lon = Some r \<and> HttpCode r = 200"
  then show "OpenWeatherMapService_GetWeather X srv lat lon \<noteq> Return (Inl e)"
    using GetWeather_after_decoding [of X srv lat lon r] by (auto split: list.splits)
next
  fix c
  show "decoded_body (with_status c X) srv lat lon = decoded_body X srv lat lon"
    by (rule decoded_body_with_status)
  show "OpenWeatherMapService_GetWeather (with_status c X) srv lat lon
              = OpenWeatherMapService_GetWeather X srv lat lon"
    by (rule GetWeather_with_status)
qed

lemma Sprintf_d_401: "Sprintf_d 401 = ''401''"
  by code_simp

theorem GetWeather_cod_decides_witness:
  "decoded_body (stub_extern (Inr \<lparr> StatusCode = 200, ReadAll = Inr invalid_key_body \<rparr>)
                   (Inr invalid_key))
     default_service (Finite (81 / 2)) (Finite (- 297 / 4)) = Some invalid_key
   \<and> HttpCode invalid_key \<noteq> 200
   \<and> OpenWeatherMapService_GetWeather
       (stub_extern (Inr \<lparr> StatusCode = 200, ReadAll = Inr invalid_key_body \<rparr>) (Inr invalid_key))
       default_service (Finite (81 / 2)) (Finite (- 297 / 4))
     = Return (Inl (APIError 401 ''Invalid API key''))
   \<and> error_text (APIError 401 ''Invalid API key'')
       = ''OpenWeatherMap API error (code 401): Invalid API key''
   \<and> decoded_body (stub_extern (Inr \<lparr> StatusCode = 500, ReadAll = Inr [] \<rparr>) (Inr clear_300K))
       default_service (Finite (81 / 2)) (Finite (- 297 / 4)) = Some clear_300K
   \<and> HttpCode clear_300K = 200
   \<and> OpenWeatherMapService_GetWeather
       (stub_extern (Inr \<lparr> StatusCode = 500, ReadAll = Inr [] \<rparr>) (Inr clear_300K))
       default_service (Finite (81 / 2)) (Finite (- 297 / 4))
     \<noteq> Return (Inl (APIError 500 []))"
proof -
  let ?X = "stub_extern (Inr \<lparr> StatusCode = 200, ReadAll = Inr invalid_key_body \<rparr>)
              (Inr invalid_key)"
  let ?Y = "stub_extern (Inr \<lparr> StatusCode = 500, ReadAll = Inr [] \<rparr>) (Inr clear_300K)"
  have d: "decoded_body ?X default_service (Finite (81 / 2)) (Finite (- 297 / 4))
             = Some invalid_key"
    by (rule stub_decoded_body)
  have c: "HttpCode invalid_key = 401" "Message invalid_key = ''Invalid API key''"
    by (simp_all add: invalid_key_def)
  have d': "decoded_body ?Y default_service (Finite (81 / 2)) (Finite (- 297 / 4))
             = Some clear_300K"
    by (rule stub_decoded_body)
  have c': "HttpCode clear_300K = 200"
    by (simp add: clear_300K_def)
  note t = GetWeather_cod_decides [of ?X default_service "Finite (81 / 2)" "Finite (- 297 / 4)"]
  note t' = GetWeather_cod_decides [of ?Y default_service "Finite (81 / 2)" "Finite (- 297 / 4)"]
  have r: "OpenWeatherMapService_GetWeather ?X default_service (Finite (81 / 2))
             (Finite (- 297 / 4)) = Return (Inl (APIError 401 ''Invalid API key''))"
    using t d c by auto
  have e: "error_text (APIError 401 ''Invalid API key'')
             = ''OpenWeatherMap API error (code 401): Invalid API key''"
    using t d c Sprintf_d_401 by auto
  have r': "OpenWeatherMapService_GetWeather ?Y default_service (Finite (81 / 2))
              (Finite (- 297 / 4)) \<noteq> Return (Inl (APIError 500 []))"
    using t' d' c' by blast
  show ?thesis
    using d c d' c' r e r' by simp
qed

subsection \<open>The temperature category\<close>









subsection \<open>The request URL\<close>

lemma QueryEscape_unreserved: "\<forall>c\<in>set s. \<not> shouldEscape c \<Longrightarrow> QueryEscape s = s"
  by (induction s) (auto simp: QueryEscape_def escape_byte_def)

lemma sorted_keys: "sort [''lat'', ''lon'', ''appid''] = [''appid'', ''lat'', ''lon'']"
  by code_simp

lemma QueryEscape_keys:
  "QueryEscape ''appid'' = ''appid''" "QueryEscape ''lat'' = ''lat''" "QueryEscape ''lon'' = ''lon''"
  by code_simp+

lemma Values_Encode_params:
  "Values_Encode [(''lat'', [x]), (''lon'', [y]), (''appid'', [k])]
     = ''appid='' @ QueryEscape k @ ''&lat='' @ QueryEscape x @ ''&lon='' @ QueryEscape y"
  by (simp add: Values_Encode_def sorted_keys QueryEscape_keys)

lemma buildAPIURL_parsed:
  assumes "url_Parse X (baseURL srv @ ''/weather'') = Inr u"
  shows "buildAPIURL X srv lat lon
           = Inr (URL_String X (u\<lparr> RawQuery :=
                    ''appid='' @ QueryEscape (apiKey srv)
                      @ ''&lat='' @ QueryEscape (FormatFloat X lat)
                      @ ''&lon='' @ QueryEscape (FormatFloat X lon) \<rparr>))"
  using assms by (simp add: buildAPIURL_def Let_def Values_Encode_params)

text \<open>
  C9, as amended. When the base URL followed by \<^verbatim>\<open>/weather\<close> parses,
  \<^verbatim>\<open>buildAPIURL\<close> prints the parsed URL with the query
  \<^verbatim>\<open>appid={apiKey}&lat={lat}&lon={lon}\<close>: the three parameters in the sorted order of
  their keys, each value query-escaped, \<open>lat\<close> and \<open>lon\<close> in the shortest decimal
  that \<^verbatim>\<open>FormatFloat\<close> gives. Where the URL prints as it was written, the result is
  the base URL, \<^verbatim>\<open>/weather?\<close> and that query. A base URL that does not parse gives
  the error of the parser. Escaping leaves a value of letters, digits and
  \<^verbatim>\<open>- _ . ~\<close> as it is.
\<close>

theorem buildAPIURL_sorted_query:
  "(\<forall>u. url_Parse X (baseURL srv @ ''/weather'') = Inr u \<longrightarrow>
       buildAPIURL X srv lat lon
         = Inr (URL_String X (u\<lparr> RawQuery :=
                  ''appid='' @ QueryEscape (apiKey srv)
                    @ ''&lat='' @ QueryEscape (FormatFloat X lat)
                    @ ''&lon='' @ QueryEscape (FormatFloat X lon) \<rparr>)))
   \<and> (\<forall>u. url_Parse X (baseURL srv @ ''/weather'') = Inr u
          \<and> (\<forall>q. q \<noteq> [] \<longrightarrow> URL_String X (u\<lparr> RawQuery := q \<rparr>) = baseURL srv @ ''/weather?'' @ q)
          \<longrightarrow>
       buildAPIURL X srv lat lon
         = Inr (baseURL srv @ ''/weather?appid='' @ QueryEscape (apiKey srv)
                  @ ''&lat='' @ QueryEscape (FormatFloat X lat)
                  @ ''&lon='' @ QueryEscape (FormatFloat X lon)))
   \<and> (\<forall>e. url_Parse X (baseURL srv @ ''/weather'') = Inl e \<longrightarrow>
          buildAPIURL X srv lat lon = Inl e)
   \<and> (\<forall>s. (\<forall>c\<in>set s. \<not> shouldEscape c) \<longrightarrow> QueryEscape s = s)"
proof (intro conjI allI impI)
  fix u assume "url_Parse X (baseURL srv @ ''/weather'') = Inr u"
  then show "buildAPIURL X srv lat lon
         = Inr (URL_String X (u\<lparr> RawQuery :=
                  ''appid='' @ QueryEscape (apiKey srv)
                    @ ''&lat='' @ QueryEscape (FormatFloat X lat)
                    @ ''&lon='' @ QueryEscape (FormatFloat X lon) \<rparr>))"
    by (rule buildAPIURL_parsed)
next
  fix u assume h: "url_Parse X (baseURL srv @ ''/weather'') = Inr u
          \<and> (\<forall>q. q \<noteq> [] \<longrightarrow> URL_String X (u\<lparr> RawQuery := q \<rparr>) = baseURL srv @ ''/weather?'' @ q)"
  then have p: "url_Parse X (baseURL srv @ ''/weather'') = Inr u"
    and q: "\<And>q. q \<noteq> [] \<Longrightarrow> URL_String X (u\<lparr> RawQuery := q \<rparr>) = baseURL srv @ ''/weather?'' @ q"
    by auto
  show "buildAPIURL X srv lat lon
         = Inr (baseURL srv @ ''/weather?appid='' @ QueryEscape (apiKey srv)
                  @ ''&lat='' @ QueryEscape (FormatFloat X lat)
                  @ ''&lon='' @ QueryEscape (FormatFloat X lon))"
    unfolding buildAPIURL_parsed [OF p] by (subst q) simp_all
next
  fix e assume "url_Parse X (baseURL srv @ ''/weather'') = Inl e"
  then show "buildAPIURL X srv lat lon = Inl e"
    by (simp add: buildAPIURL_def)
next
  fix s assume "\<forall>c\<in>set s. \<not> shouldEscape c"
  then show "QueryEscape s = s" by (rule QueryEscape_unreserved)
qed

text \<open>
  The order \<^verbatim>\<open>lat\<close>, \<^verbatim>\<open>lon\<close>, \<^verbatim>\<open>appid\<close> in which the parameters are added
  is not the order of the URL that is built.
\<close>

theorem buildAPIURL_order_counterexample:
  "buildAPIURL offline_extern default_service (Finite (81 / 2)) (Finite (- 297 / 4))
     \<noteq> Inr (baseURL default_service @ ''/weather?lat=''
              @ FormatFloat offline_extern (Finite (81 / 2))
              @ ''&lon='' @ FormatFloat offline_extern (Finite (- 297 / 4))
              @ ''&appid='' @ apiKey default_service)"
  unfolding offline_extern_def stub_buildAPIURL
  by (simp add: stub_extern_def default_service_def)

theorem buildAPIURL_sorted_query_witness:
  "url_Parse offline_extern (baseURL default_service @ ''/weather'')
     = Inr \<lparr> Scheme = ''https'', Host = ''api.openweathermap.org'',
             Path = ''/data/2.5/weather'', RawQuery = [], Fragment = [] \<rparr>
   \<and> URL_String offline_extern
         \<lparr> Scheme = ''https'', Host = ''api.openweathermap.org'',
           Path = ''/data/2.5/weather'', RawQuery = ''a=b'', Fragment = [] \<rparr>
       = baseURL default_service @ ''/weather?a=b''
   \<and> QueryEscape ''0123456789abcdef'' = ''0123456789abcdef''
   \<and> buildAPIURL offline_extern default_service (Finite (81 / 2)) (Finite (- 297 / 4))
       = Inr ''https://api.openweathermap.org/data/2.5/weather?appid=0123456789abcdef&lat=40.5&lon=-74.25''"
proof -
  let ?u = "\<lparr> Scheme = ''https'', Host = ''api.openweathermap.org'',
             Path = ''/data/2.5/weather'', RawQuery = [], Fragment = [] \<rparr>"
  have p: "url_Parse offline_extern (baseURL default_service @ ''/weather'') = Inr ?u"
    by (simp add: offline_extern_def stub_extern_def default_service_def)
  have s: "\<forall>q. q \<noteq> [] \<longrightarrow>
         URL_String offline_extern (?u\<lparr> RawQuery := q \<rparr>)
         = baseURL default_service @ ''/weather?'' @ q"
    by (simp add: offline_extern_def stub_extern_def default_service_def stub_URL_String_def)
  have k: "\<forall>c\<in>set ''0123456789abcdef''. \<not> shouldEscape c"
    by (simp add: shouldEscape_def in_range_def)
  have d: "\<forall>c\<in>set ''40.5''. \<not> shouldEscape c" "\<forall>c\<in>set ''-74.25''. \<not> shouldEscape c"
    by (simp_all add: shouldEscape_def in_range_def)
  note t = buildAPIURL_sorted_query [of offline_extern default_service "Finite (81 / 2)"
      "Finite (- 297 / 4)"]
  have e: "QueryEscape ''0123456789abcdef'' = ''0123456789abcdef''"
    "QueryEscape ''40.5'' = ''40.5''" "QueryEscape ''-74.25'' = ''-74.25''"
    using t k d by blast+
  have "buildAPIURL offline_extern default_service (Finite (81 / 2)) (Finite (- 297 / 4))
         = Inr (baseURL default_service @ ''/weather?appid='' @ QueryEscape (apiKey default_service)
                  @ ''&lat='' @ QueryEscape (FormatFloat offline_extern (Finite (81 / 2)))
                  @ ''&lon='' @ QueryEscape (FormatFloat offline_extern (Finite (- 297 / 4))))"
    using t p s by blast
  then have "buildAPIURL offline_extern default_service (Finite (81 / 2)) (Finite (- 297 / 4))
       = Inr ''https://api.openweathermap.org/data/2.5/weather?appid=0123456789abcdef&lat=40.5&lon=-74.25''"
    using e by (simp add: offline_extern_def stub_extern_def default_service_def)
  moreover have "URL_String offline_extern
         \<lparr> Scheme = ''https'', Host = ''api.openweathermap.org'',
           Path = ''/data/2.5/weather'', RawQuery = ''a=b'', Fragment = [] \<rparr>
       = baseURL default_service @ ''/weather?a=b''"
    using s [rule_format, of "''a=b''"] by simp
  ultimately show ?thesis using p e(1) by blast
qed

section \<open>The handler\<close>

subsection \<open>Writing a response\<close>

lemma sendJSONResponse_sent:
  assumes "\<not> wroteHeader w"
  shows "wroteHeader (sendJSONResponse Encode w statusCode data)
       \<and> Status (sendJSONResponse Encode w statusCode data) = statusCode
       \<and> SentHeader (sendJSONResponse Encode w statusCode data)
           = (Header w)(''Content-Type'' \<mapsto> ''application/json'')"
  using assms
  by (auto simp: sendJSONResponse_def http_Error_def Write_def WriteHeader_def Header_Set_def
      Header_Del_def Let_def split: option.splits)

lemma sendJSONResponse_body:
  assumes "\<not> wroteHeader w"
  shows "Body (sendJSONResponse Encode w statusCode data)
           = Body w @ (case Encode data of
                         Some bytes \<Rightarrow> bytes
                       | None \<Rightarrow> ''Internal server error'' @ [CHR 0x0A])"
  using assms
  by (auto simp: sendJSONResponse_def http_Error_def Write_def WriteHeader_def Header_Set_def
      Header_Del_def Let_def split: option.splits)

lemma json_Encode_unavailable:
  "json_Encode (ErrorPayload \<lparr> Error = ''Unable to fetch weather data'' \<rparr>)
     = Some (''{\"error\":\"Unable to fetch weather data\"}'' @ [CHR 0x0A])"
  by code_simp

lemma sendErrorResponse_unavailable:
  "sendErrorResponse json_Encode NewResponseWriter 503 ''Unable to fetch weather data''
     = \<lparr> Header = [''Content-Type'' \<mapsto> ''application/json''], wroteHeader = True,
         Status = 503, SentHeader = [''Content-Type'' \<mapsto> ''application/json''],
         Body = ''{\"error\":\"Unable to fetch weather data\"}'' @ [CHR 0x0A] \<rparr>"
  unfolding sendErrorResponse_def sendJSONResponse_def json_Encode_unavailable
  by (simp add: NewResponseWriter_def Write_def WriteHeader_def Header_Set_def)

lemma handler_on_error:
  assumes "Method r = ''GET''" and "parseCoordinates ParseFloat r = Inr (lat, lon)"
    and "weatherService lat lon st = (Return (d, Some e), st')"
  shows "WeatherHandler_GetWeather ParseFloat Encode weatherService w r st
           = (Return (sendErrorResponse Encode w 503 ''Unable to fetch weather data''), st')"
  using assms by (simp add: WeatherHandler_GetWeather_def)

lemma handler_on_invalid:
  assumes "Method r = ''GET''" and "parseCoordinates ParseFloat r = Inl msg"
  shows "WeatherHandler_GetWeather ParseFloat Encode weatherService w r st
           = (Return (sendErrorResponse Encode w 400 msg), st)"
  using assms by (simp add: WeatherHandler_GetWeather_def)

lemma get_request_values:
  "Values_Get (Query (get_request a b)) ''lat'' = a"
  "Values_Get (Query (get_request a b)) ''lon'' = b"
  "Method (get_request a b) = ''GET''"
  by (simp_all add: get_request_def Values_Get_def)

lemma ParseFloat_table_values:
  "ParseFloat_table ''NaN'' = Some NaN" "ParseFloat_table ''0'' = Some (Finite 0)"
  "ParseFloat_table ''90'' = Some (Finite 90)" "ParseFloat_table ''-90'' = Some (Finite (- 90))"
  "ParseFloat_table ''91'' = Some (Finite 91)" "ParseFloat_table ''180'' = Some (Finite 180)"
  "ParseFloat_table ''-180'' = Some (Finite (- 180))" "ParseFloat_table ''181'' = Some (Finite 181)"
  "ParseFloat_table ''40.5'' = Some (Finite (81 / 2))"
  "ParseFloat_table ''-74.25'' = Some (Finite (- 297 / 4))"
  "ParseFloat_table ''abc'' = None"
  by (simp_all add: ParseFloat_table_def)

subsection \<open>Validation of the coordinates\<close>

lemma Values_Get_empty_iff:
  "Values_Get vs key = [] \<longleftrightarrow>
     (vs key = None \<or> vs key = Some [] \<or> (\<exists>rest. vs key = Some ([] # rest)))"
  by (auto simp: Values_Get_def split: option.splits list.splits)

lemma Sprintf_4f_91: "Sprintf_4f (Finite 91) = ''91.0000''"
  by code_simp

lemma Sprintf_4f_181: "Sprintf_4f (Finite 181) = ''181.0000''"
  by code_simp

text \<open>
  C7. \<^verbatim>\<open>parseCoordinates\<close> checks in this order and returns the first failure:
  an empty \<^verbatim>\<open>lat\<close> or \<^verbatim>\<open>lon\<close>; a \<^verbatim>\<open>lat\<close> that does not parse, with the raw text in
  the message; a \<^verbatim>\<open>lon\<close> that does not parse; a latitude below -90 or above 90, with
  the value to four decimals in the message; a longitude below -180 or above 180;
  otherwise the pair is returned. For \<^verbatim>\<open>lat=91\<close> and a longitude that parses the
  message ends in \<^verbatim>\<open>91.0000\<close>. The handler sends the message of the failure with
  status 400.
\<close>

theorem parseCoordinates_order:
  "(Values_Get (Query r) ''lat'' = [] \<or> Values_Get (Query r) ''lon'' = [] \<longrightarrow>
      parseCoordinates ParseFloat r = Inl ''lat and lon query parameters are required'')
   \<and> (Values_Get (Query r) ''lat'' \<noteq> [] \<and> Values_Get (Query r) ''lon'' \<noteq> []
      \<and> ParseFloat (Values_Get (Query r) ''lat'') = None \<longrightarrow>
      parseCoordinates ParseFloat r
        = Inl (''invalid latitude value: '' @ Values_Get (Query r) ''lat''))
   \<and> (Values_Get (Query r) ''lat'' \<noteq> [] \<and> Values_Get (Query r) ''lon'' \<noteq> []
      \<and> ParseFloat (Values_Get (Query r) ''lat'') = Some lat
      \<and> ParseFloat (Values_Get (Query r) ''lon'') = None \<longrightarrow>
      parseCoordinates ParseFloat r
        = Inl (''invalid longitude value: '' @ Values_Get (Query r) ''lon''))
   \<and> (Values_Get (Query r) ''lat'' \<noteq> [] \<and> Values_Get (Query r) ''lon'' \<noteq> []
      \<and> ParseFloat (Values_Get (Query r) ''lat'') = Some lat
      \<and> ParseFloat (Values_Get (Query r) ''lon'') = Some lon
      \<and> (f64_lt lat (Finite (- 90)) \<or> f64_gt lat (Finite 90)) \<longrightarrow>
      parseCoordinates ParseFloat r
        = Inl (''latitude must be between -90 and 90, got: '' @ Sprintf_4f lat))
   \<and> (Values_Get (Query r) ''lat'' \<noteq> [] \<and> Values_Get (Query r) ''lon'' \<noteq> []
      \<and> ParseFloat (Values_Get (Query r) ''lat'') = Some lat
      \<and> ParseFloat (Values_Get (Query r) ''lon'') = Some lon
      \<and> \<not> (f64_lt lat (Finite (- 90)) \<or> f64_gt lat (Finite 90))
      \<and> (f64_lt lon (Finite (- 180)) \<or> f64_gt lon (Finite 180)) \<longrightarrow>
      parseCoordinates ParseFloat r
        = Inl (''longitude must be between -180 and 180, got: '' @ Sprintf_4f lon))
   \<and> (Values_Get (Query r) ''lat'' \<noteq> [] \<and> Values_Get (Query r) ''lon'' \<noteq> []
      \<and> ParseFloat (Values_Get (Query r) ''lat'') = Some lat
      \<and> ParseFloat (Values_Get (Query r) ''lon'') = Some lon
      \<and> \<not> (f64_lt lat (Finite (- 90)) \<or> f64_gt lat (Finite 90))
      \<and> \<not> (f64_lt lon (Finite (- 180)) \<or> f64_gt lon (Finite 180)) \<longrightarrow>
      parseCoordinates ParseFloat r = Inr (lat, lon))
   \<and> (Values_Get (Query r) ''lat'' = ''91'' \<and> ParseFloat ''91'' = Some (Finite 91)
      \<and> Values_Get (Query r) ''lon'' \<noteq> []
      \<and> ParseFloat (Values_Get (Query r) ''lon'') = Some lon \<longrightarrow>
      parseCoordinates ParseFloat r
        = Inl ''latitude must be between -90 and 90, got: 91.0000'')
   \<and> (Method r = ''GET'' \<and> parseCoordinates ParseFloat r = Inl msg \<longrightarrow>
      WeatherHandler_GetWeather ParseFloat Encode weatherService w r st
        = (Return (sendErrorResponse Encode w 400 msg), st))"
proof (intro conjI impI)
  assume "Values_Get (Query r) ''lat'' = ''91'' \<and> ParseFloat ''91'' = Some (Finite 91)
      \<and> Values_Get (Query r) ''lon'' \<noteq> []
      \<and> ParseFloat (Values_Get (Query r) ''lon'') = Some lon"
  then show "parseCoordinates ParseFloat r
        = Inl ''latitude must be between -90 and 90, got: 91.0000''"
    using Sprintf_4f_91
    by (simp add: parseCoordinates_def Let_def f64_lt_def f64_gt_def)
next
  assume "Method r = ''GET'' \<and> parseCoordinates ParseFloat r = Inl msg"
  then show "WeatherHandler_GetWeather ParseFloat Encode weatherService w r st
        = (Return (sendErrorResponse Encode w 400 msg), st)"
    by (simp add: handler_on_invalid)
qed (simp_all add: parseCoordinates_def Let_def)

theorem parseCoordinates_order_witness:
  "Values_Get (Query \<lparr> Method = ''GET'', Query = Map.empty \<rparr>) ''lat'' = []
   \<and> parseCoordinates ParseFloat_table \<lparr> Method = ''GET'', Query = Map.empty \<rparr>
       = Inl ''lat and lon query parameters are required''
   \<and> ParseFloat_table ''abc'' = None
   \<and> parseCoordinates ParseFloat_table (get_request ''abc'' ''0'')
       = Inl ''invalid latitude value: abc''
   \<and> parseCoordinates ParseFloat_table (get_request ''0'' ''abc'')
       = Inl ''invalid longitude value: abc''
   \<and> ParseFloat_table ''91'' = Some (Finite 91) \<and> f64_gt (Finite 91) (Finite 90)
   \<and> parseCoordinates ParseFloat_table (get_request ''91'' ''0'')
       = Inl ''latitude must be between -90 and 90, got: 91.0000''
   \<and> ParseFloat_table ''181'' = Some (Finite 181) \<and> f64_gt (Finite 181) (Finite 180)
   \<and> parseCoordinates ParseFloat_table (get_request ''0'' ''181'')
       = Inl ''longitude must be between -180 and 180, got: 181.0000''
   \<and> parseCoordinates ParseFloat_table (get_request ''90'' ''-180'')
       = Inr (Finite 90, Finite (- 180))
   \<and> WeatherHandler_GetWeather ParseFloat_table json_Encode
        (counting_service (None, Some ())) NewResponseWriter (get_request ''91'' ''0'') 0
       = (Return (sendErrorResponse json_Encode NewResponseWriter 400
                    ''latitude must be between -90 and 90, got: 91.0000''), 0)"
proof -
  let ?none = "\<lparr> Method = ''GET'', Query = Map.empty \<rparr>"
  note v = get_request_values ParseFloat_table_values
  have c: "f64_gt (Finite 91) (Finite 90)" "f64_gt (Finite 181) (Finite 180)"
    "\<not> (f64_lt (Finite 0) (Finite (- 90)) \<or> f64_gt (Finite 0) (Finite 90))"
    "\<not> (f64_lt (Finite 90) (Finite (- 90)) \<or> f64_gt (Finite 90) (Finite 90))"
    "\<not> (f64_lt (Finite (- 180)) (Finite (- 180)) \<or> f64_gt (Finite (- 180)) (Finite 180))"
    by (simp_all add: f64_lt_def f64_gt_def)
  have e: "Values_Get (Query ?none) ''lat'' = []"
    by (simp add: Values_Get_def)
  have 1: "parseCoordinates ParseFloat_table ?none
             = Inl ''lat and lon query parameters are required''"
    by (rule parseCoordinates_order [THEN conjunct1, rule_format]) (simp add: Values_Get_def)
  have "parseCoordinates ParseFloat_table (get_request ''abc'' ''0'')
          = Inl (''invalid latitude value: '' @ Values_Get (Query (get_request ''abc'' ''0'')) ''lat'')"
    by (rule parseCoordinates_order [THEN conjunct2, THEN conjunct1, rule_format])
       (simp add: v)
  then have 2: "parseCoordinates ParseFloat_table (get_request ''abc'' ''0'')
             = Inl ''invalid latitude value: abc''"
    by (simp add: v)
  have "parseCoordinates ParseFloat_table (get_request ''0'' ''abc'')
          = Inl (''invalid longitude value: '' @ Values_Get (Query (get_request ''0'' ''abc'')) ''lon'')"
    by (rule parseCoordinates_order [where lat = "Finite 0", THEN conjunct2, THEN conjunct2,
          THEN conjunct1, rule_format])
       (simp add: v)
  then have 3: "parseCoordinates ParseFloat_table (get_request ''0'' ''abc'')
             = Inl ''invalid longitude value: abc''"
    by (simp add: v)
  have 4: "parseCoordinates ParseFloat_table (get_request ''91'' ''0'')
             = Inl ''latitude must be between -90 and 90, got: 91.0000''"
    by (rule parseCoordinates_order [where lon = "Finite 0", THEN conjunct2, THEN conjunct2,
          THEN conjunct2, THEN conjunct2, THEN conjunct2, THEN conjunct2, THEN conjunct1,
          rule_format])
       (simp add: v)
  have "parseCoordinates ParseFloat_table (get_request ''0'' ''181'')
          = Inl (''longitude must be between -180 and 180, got: '' @ Sprintf_4f (Finite 181))"
    by (rule parseCoordinates_order [where lat = "Finite 0", THEN conjunct2, THEN conjunct2,
          THEN conjunct2, THEN conjunct2, THEN conjunct1, rule_format])
       (simp add: v c)
  then have 5: "parseCoordinates ParseFloat_table (get_request ''0'' ''181'')
             = Inl ''longitude must be between -180 and 180, got: 181.0000''"
    by (simp add: Sprintf_4f_181)
  have 6: "parseCoordinates ParseFloat_table (get_request ''90'' ''-180'')
             = Inr (Finite 90, Finite (- 180))"
    by (rule parseCoordinates_order [THEN conjunct2, THEN conjunct2, THEN conjunct2,
          THEN conjunct2, THEN conjunct2, THEN conjunct1, rule_format])
       (simp add: v c)
  have 7: "WeatherHandler_GetWeather ParseFloat_table json_Encode
        (counting_service (None, Some ())) NewResponseWriter (get_request ''91'' ''0'') 0
       = (Return (sendErrorResponse json_Encode NewResponseWriter 400
                    ''latitude must be between -90 and 90, got: 91.0000''), 0)"
    by (rule parseCoordinates_order [THEN conjunct2, THEN conjunct2, THEN conjunct2,
          THEN conjunct2, THEN conjunct2, THEN conjunct2, THEN conjunct2, rule_format])
       (simp add: v 4)
  show ?thesis
    using e 1 2 3 4 5 6 7 c(1,2) by (simp add: ParseFloat_table_values)
qed

subsection \<open>The accepted range\<close>

lemma parseCoordinates_in_range:
  assumes "parseCoordinates ParseFloat r = Inr (lat, lon)"
    and "\<not> is_nan lat" and "\<not> is_nan lon"
  shows "f64_le (Finite (- 90)) lat \<and> f64_le lat (Finite 90)
       \<and> f64_le (Finite (- 180)) lon \<and> f64_le lon (Finite 180)"
proof -
  have "\<not> f64_lt lat (Finite (- 90))" "\<not> f64_lt (Finite 90) lat"
       "\<not> f64_lt lon (Finite (- 180))" "\<not> f64_lt (Finite 180) lon"
    using assms(1)
    by (auto simp: parseCoordinates_def Let_def f64_gt_def split: if_splits option.splits)
  then show ?thesis
    using assms(2,3) by (cases lat; cases lon) (auto simp: f64_lt_def f64_le_def)
qed

lemma boundaries_accepted:
  "parseCoordinates ParseFloat_table (get_request ''90'' ''180'') = Inr (Finite 90, Finite 180)"
  "parseCoordinates ParseFloat_table (get_request ''-90'' ''-180'')
     = Inr (Finite (- 90), Finite (- 180))"
  by (simp_all add: parseCoordinates_def get_request_values ParseFloat_table_values
      f64_lt_def f64_gt_def)

lemma parseCoordinates_NaN_general:
  assumes "Values_Get (Query r) ''lat'' \<noteq> []" "ParseFloat (Values_Get (Query r) ''lat'') = Some NaN"
    and "Values_Get (Query r) ''lon'' \<noteq> []" "ParseFloat (Values_Get (Query r) ''lon'') = Some lon"
    and "\<not> f64_lt lon (Finite (- 180))" "\<not> f64_gt lon (Finite 180)"
  shows "parseCoordinates ParseFloat r = Inr (NaN, lon)"
  using assms by (simp add: parseCoordinates_def Let_def f64_gt_def f64_nan_compare)

lemma parse_NaN_0:
  "parseCoordinates ParseFloat_table (get_request ''NaN'' ''0'') = Inr (NaN, Finite 0)"
  by (rule parseCoordinates_NaN_general)
     (simp_all add: get_request_values ParseFloat_table_values f64_lt_def f64_gt_def)

text \<open>
  C2. A pair that passes validation lies in the ranges when neither value is NaN,
  and the four boundary values pass. NaN passes as well: \<^verbatim>\<open>ParseFloat\<close> accepts
  the text \<^verbatim>\<open>NaN\<close>, both comparisons of the range check are false for it, and the
  handler goes on to call the service, although NaN is not between -90 and 90.
\<close>

theorem NaN_latitude_is_accepted:
  "parseCoordinates ParseFloat_table (get_request ''NaN'' ''0'') = Inr (NaN, Finite 0)
   \<and> \<not> f64_le (Finite (- 90)) NaN \<and> \<not> f64_le NaN (Finite 90)
   \<and> snd (WeatherHandler_GetWeather ParseFloat_table json_Encode
            (counting_service (None, Some ())) NewResponseWriter (get_request ''NaN'' ''0'') 0)
       = Suc 0"
  by (simp add: parse_NaN_0 f64_nan_compare WeatherHandler_GetWeather_def get_request_values
      counting_service_def)

subsection \<open>Requests that fail validation\<close>

text \<open>
  C6. For a GET request whose parameters fail validation the handler writes the
  error with status 400 and leaves the state of the service as it was, whatever the
  service is: the response is the same for any two services, of any types and in any
  states, so the service is not called.
\<close>

theorem invalid_request_no_upstream_call:
  "Method r = ''GET'' \<and> parseCoordinates ParseFloat r = Inl msg \<longrightarrow>
     WeatherHandler_GetWeather ParseFloat Encode service1 w r st1
       = (Return (sendErrorResponse Encode w 400 msg), st1)
     \<and> WeatherHandler_GetWeather ParseFloat Encode service2 w r st2
       = (Return (sendErrorResponse Encode w 400 msg), st2)
     \<and> (\<not> wroteHeader w \<longrightarrow> Status (sendErrorResponse Encode w 400 msg) = 400)"
  using handler_on_invalid [of r ParseFloat msg Encode service1 w st1]
    handler_on_invalid [of r ParseFloat msg Encode service2 w st2]
    sendJSONResponse_sent [of w Encode 400 "ErrorPayload \<lparr> Error = msg \<rparr>"]
  by (simp add: sendErrorResponse_def)

theorem invalid_request_no_upstream_call_witness:
  "Method (get_request ''abc'' ''0'') = ''GET''
   \<and> parseCoordinates ParseFloat_table (get_request ''abc'' ''0'')
       = Inl ''invalid latitude value: abc''
   \<and> \<not> wroteHeader NewResponseWriter
   \<and> WeatherHandler_GetWeather ParseFloat_table json_Encode
        (counting_service (None, Some ())) NewResponseWriter (get_request ''abc'' ''0'') 0
       = (Return (sendErrorResponse json_Encode NewResponseWriter 400
                    ''invalid latitude value: abc''), 0)
   \<and> WeatherHandler_GetWeather ParseFloat_table json_Encode
        (OpenWeatherMapService_as_WeatherService offline_extern default_service)
        NewResponseWriter (get_request ''abc'' ''0'') True
       = (Return (sendErrorResponse json_Encode NewResponseWriter 400
                    ''invalid latitude value: abc''), True)
   \<and> Status (sendErrorResponse json_Encode NewResponseWriter 400
               ''invalid latitude value: abc'') = 400
   \<and> snd (WeatherHandler_GetWeather ParseFloat_table json_Encode
             (counting_service (None, Some ())) NewResponseWriter
             (get_request ''40.5'' ''-74.25'') 0) = Suc 0"
proof -
  have m: "Method (get_request ''abc'' ''0'') = ''GET''"
    by (simp add: get_request_values)
  have p: "parseCoordinates ParseFloat_table (get_request ''abc'' ''0'')
             = Inl ''invalid latitude value: abc''"
    by (simp add: parseCoordinates_def get_request_values ParseFloat_table_values)
  have w: "\<not> wroteHeader NewResponseWriter"
    by (simp add: NewResponseWriter_def)
  have q: "parseCoordinates ParseFloat_table (get_request ''40.5'' ''-74.25'')
             = Inr (Finite (81 / 2), Finite (- 297 / 4))"
    by (simp add: parseCoordinates_def get_request_values ParseFloat_table_values
        f64_lt_def f64_gt_def)
  have c: "snd (WeatherHandler_GetWeather ParseFloat_table json_Encode
             (counting_service (None, Some ())) NewResponseWriter
             (get_request ''40.5'' ''-74.25'') 0) = Suc 0"
    by (simp add: WeatherHandler_GetWeather_def q get_request_values counting_service_def)
  show ?thesis
    using m p w c
      invalid_request_no_upstream_call [of "get_request ''abc'' ''0''" ParseFloat_table
        "''invalid latitude value: abc''" json_Encode "counting_service (None, Some ())"
        NewResponseWriter 0
        "OpenWeatherMapService_as_WeatherService offline_extern default_service" True]
    by simp
qed

subsection \<open>Errors of the service\<close>

text \<open>
  C3. When the service returns an error, whatever the error and whatever comes with
  it, the handler answers a valid GET request with status 503, content type
  \<^verbatim>\<open>application/json\<close> and the body \<^verbatim>\<open>{"error":"Unable to fetch weather data"}\<close>
  followed by the newline of the encoder: the response is one fixed value, so nothing of
  the error shows in it. This holds for any service behind the interface, and for
  the OpenWeatherMap client with each of its errors.
\<close>

theorem service_error_is_503:
  "(Method r = ''GET'' \<and> parseCoordinates ParseFloat r = Inr (lat, lon)
      \<and> weatherService lat lon st = (Return (d, Some e), st') \<longrightarrow>
      WeatherHandler_GetWeather ParseFloat json_Encode weatherService NewResponseWriter r st
        = (Return \<lparr> Header = [''Content-Type'' \<mapsto> ''application/json''], wroteHeader = True,
                    Status = 503, SentHeader = [''Content-Type'' \<mapsto> ''application/json''],
                    Body = ''{\"error\":\"Unable to fetch weather data\"}'' @ [CHR 0x0A] \<rparr>,
           st'))
   \<and> (Method r = ''GET'' \<and> parseCoordinates ParseFloat r = Inr (lat, lon)
      \<and> OpenWeatherMapService_GetWeather X srv lat lon = Return (Inl err) \<longrightarrow>
      WeatherHandler_GetWeather ParseFloat json_Encode
          (OpenWeatherMapService_as_WeatherService X srv) NewResponseWriter r st2
        = (Return \<lparr> Header = [''Content-Type'' \<mapsto> ''application/json''], wroteHeader = True,
                    Status = 503, SentHeader = [''Content-Type'' \<mapsto> ''application/json''],
                    Body = ''{\"error\":\"Unable to fetch weather data\"}'' @ [CHR 0x0A] \<rparr>,
           st2))"
proof (intro conjI impI)
  assume h: "Method r = ''GET'' \<and> parseCoordinates ParseFloat r = Inr (lat, lon)
      \<and> weatherService lat lon st = (Return (d, Some e), st')"
  then show "WeatherHandler_GetWeather ParseFloat json_Encode weatherService NewResponseWriter r st
        = (Return \<lparr> Header = [''Content-Type'' \<mapsto> ''application/json''], wroteHeader = True,
                    Status = 503, SentHeader = [''Content-Type'' \<mapsto> ''application/json''],
                    Body = ''{\"error\":\"Unable to fetch weather data\"}'' @ [CHR 0x0A] \<rparr>,
           st')"
    using handler_on_error [of r ParseFloat lat lon weatherService st d e st' json_Encode
        NewResponseWriter]
    by (simp only: sendErrorResponse_unavailable)
next
  assume h: "Method r = ''GET'' \<and> parseCoordinates ParseFloat r = Inr (lat, lon)
      \<and> OpenWeatherMapService_GetWeather X srv lat lon = Return (Inl err)"
  then have "OpenWeatherMapService_as_WeatherService X srv lat lon st2
               = (Return (None, Some err), st2)"
    by (simp add: OpenWeatherMapService_as_WeatherService_def)
  with h show "WeatherHandler_GetWeather ParseFloat json_Encode
          (OpenWeatherMapService_as_WeatherService X srv) NewResponseWriter r st2
        = (Return \<lparr> Header = [''Content-Type'' \<mapsto> ''application/json''], wroteHeader = True,
                    Status = 503, SentHeader = [''Content-Type'' \<mapsto> ''application/json''],
                    Body = ''{\"error\":\"Unable to fetch weather data\"}'' @ [CHR 0x0A] \<rparr>,
           st2)"
    using handler_on_error [of r ParseFloat lat lon "OpenWeatherMapService_as_WeatherService X srv"
        st2 None err st2 json_Encode NewResponseWriter]
    by (simp only: sendErrorResponse_unavailable)
qed

theorem service_error_is_503_witness:
  "Method (get_request ''40.5'' ''-74.25'') = ''GET''
   \<and> parseCoordinates ParseFloat_table (get_request ''40.5'' ''-74.25'')
       = Inr (Finite (81 / 2), Finite (- 297 / 4))
   \<and> counting_service (None, Some ''mock error'') (Finite (81 / 2)) (Finite (- 297 / 4)) 0
       = (Return (None, Some ''mock error''), Suc 0)
   \<and> WeatherHandler_GetWeather ParseFloat_table json_Encode
        (counting_service (None, Some ''mock error'')) NewResponseWriter
        (get_request ''40.5'' ''-74.25'') 0
       = (Return \<lparr> Header = [''Content-Type'' \<mapsto> ''application/json''], wroteHeader = True,
                   Status = 503, SentHeader = [''Content-Type'' \<mapsto> ''application/json''],
                   Body = ''{\"error\":\"Unable to fetch weather data\"}'' @ [CHR 0x0A] \<rparr>,
          Suc 0)
   \<and> OpenWeatherMapService_GetWeather
        (stub_extern (Inr \<lparr> StatusCode = 401, ReadAll = Inr invalid_key_body \<rparr>) (Inr invalid_key))
        default_service (Finite (81 / 2)) (Finite (- 297 / 4))
       = Return (Inl (APIError 401 ''Invalid API key''))
   \<and> WeatherHandler_GetWeather ParseFloat_table json_Encode
        (OpenWeatherMapService_as_WeatherService
           (stub_extern (Inr \<lparr> StatusCode = 401, ReadAll = Inr invalid_key_body \<rparr>)
              (Inr invalid_key))
           default_service)
        NewResponseWriter (get_request ''40.5'' ''-74.25'') True
       = (Return \<lparr> Header = [''Content-Type'' \<mapsto> ''application/json''], wroteHeader = True,
                   Status = 503, SentHeader = [''Content-Type'' \<mapsto> ''application/json''],
                   Body = ''{\"error\":\"Unable to fetch weather data\"}'' @ [CHR 0x0A] \<rparr>,
          True)"
proof -
  let ?r = "get_request ''40.5'' ''-74.25''"
  let ?X = "stub_extern (Inr \<lparr> StatusCode = 401, ReadAll = Inr invalid_key_body \<rparr>)
              (Inr invalid_key)"
  have m: "Method ?r = ''GET''"
    by (simp add: get_request_values)
  have q: "parseCoordinates ParseFloat_table ?r = Inr (Finite (81 / 2), Finite (- 297 / 4))"
    by (simp add: parseCoordinates_def get_request_values ParseFloat_table_values
        f64_lt_def f64_gt_def)
  have s: "counting_service (None, Some ''mock error'') (Finite (81 / 2)) (Finite (- 297 / 4)) 0
             = (Return (None, Some ''mock error''), Suc 0)"
    by (simp add: counting_service_def)
  have g: "OpenWeatherMapService_GetWeather ?X default_service (Finite (81 / 2))
             (Finite (- 297 / 4)) = Return (Inl (APIError 401 ''Invalid API key''))"
    unfolding GetWeather_after_decoding [OF stub_decoded_body]
    by (simp add: invalid_key_def)
  note a = service_error_is_503 [of ?r ParseFloat_table "Finite (81 / 2)" "Finite (- 297 / 4)"
      "counting_service (None, Some ''mock error'')" 0 None "''mock error''" "Suc 0"
      ?X default_service "APIError 401 ''Invalid API key''" True]
  show ?thesis
    using m q s g a by blast
qed

subsection \<open>A failure of the encoder\<close>

text \<open>
  C8. The specification promises status 500 with a plain-text body when the
  encoding of the payload fails. \<^verbatim>\<open>sendJSONResponse\<close> has written the status line and the JSON
  content type before it encodes, so the call of \<^verbatim>\<open>http.Error\<close> with 500 comes too
  late: the client receives the status that was chosen first, the content type
  \<^verbatim>\<open>application/json\<close>, and the text \<^verbatim>\<open>Internal server error\<close> as the body.
\<close>

theorem encode_failure_wire_result:
  "Encode data = None \<and> \<not> wroteHeader w \<longrightarrow>
     Status (sendJSONResponse Encode w statusCode data) = statusCode
     \<and> SentHeader (sendJSONResponse Encode w statusCode data) ''Content-Type''
         = Some ''application/json''
     \<and> Body (sendJSONResponse Encode w statusCode data)
         = Body w @ ''Internal server error'' @ [CHR 0x0A]"
  using sendJSONResponse_sent [of w Encode statusCode data]
    sendJSONResponse_body [of w Encode statusCode data]
  by simp

theorem encode_failure_wire_result_witness:
  "(\<lambda>p. None) (DataPayload None) = (None :: string option)
   \<and> \<not> wroteHeader NewResponseWriter
   \<and> Status (sendJSONResponse (\<lambda>p. None) NewResponseWriter 200 (DataPayload None)) = 200
   \<and> Status (sendJSONResponse (\<lambda>p. None) NewResponseWriter 200 (DataPayload None)) \<noteq> 500
   \<and> SentHeader (sendJSONResponse (\<lambda>p. None) NewResponseWriter 200 (DataPayload None))
        ''Content-Type'' = Some ''application/json''
   \<and> Body (sendJSONResponse (\<lambda>p. None) NewResponseWriter 200 (DataPayload None))
       = ''Internal server error'' @ [CHR 0x0A]"
proof -
  have w: "\<not> wroteHeader NewResponseWriter" and b: "Body NewResponseWriter = []"
    by (simp_all add: NewResponseWriter_def)
  show ?thesis
    using w b encode_failure_wire_result [of "\<lambda>p. None" "DataPayload None" NewResponseWriter 200]
    by simp
qed

end
